theory Spec2Isabelle
  imports Main "HOL-Library.AList"
begin

section \<open>The Alchemy paymaster middleware (alchemy-paymaster.ts)\<close>

text \<open>
  A shallow embedding of \<^verbatim>\<open>packages/core/src/middleware/alchemy-paymaster.ts\<close>.
  JavaScript objects are association lists from property names to values, in insertion
  order; a rejected promise is the left summand of a sum; the state of the JSON-RPC
  transport is threaded through every asynchronous call.
\<close>

subsection \<open>Values, objects and errors\<close>

type_synonym Hex = string
type_synonym Address = string

text \<open>What a rejected promise carries. The source never builds an error of its own: every
  error it can reject with comes from a collaborator.\<close>

datatype error =
    TransportError string
  | MalformedResponse string
  | ServiceError int string
  | ResolutionError string

text \<open>A resolved property value of a user operation: a hex string or an unsigned big
  integer (\<^verbatim>\<open>0n\<close> is \<open>BigInt 0\<close>).\<close>

datatype lit = HexString Hex | BigInt nat

text \<open>A property of a \<^verbatim>\<open>UserOperationStruct\<close>: a plain value, or a promise of one, which
  is represented by the outcome it settles with.\<close>

datatype field = Value lit | Deferred "error + lit"

type_synonym 'a object = "(string \<times> 'a) list"

type_synonym UserOperationStruct = "field object"
type_synonym UserOperationRequest = "Hex object"

text \<open>An asynchronous computation over the transport state \<open>'w\<close>: it either rejects
  (\<open>Inl\<close>) or fulfils (\<open>Inr\<close>), and leaves a transport state behind.\<close>

type_synonym ('w, 'a) async = "'w \<Rightarrow> (error + 'a) \<times> 'w"

type_synonym 'w middleware = "UserOperationStruct \<Rightarrow> ('w, UserOperationStruct) async"

subsection \<open>Object spread\<close>

text \<open>\<^verbatim>\<open>{...a, ...b}\<close> starts from the empty object and assigns the own properties of
  each source in turn: an existing key keeps its place and takes the new value, a new
  key is appended.\<close>

definition assign :: "'a object \<Rightarrow> 'a object \<Rightarrow> 'a object" where
  "assign target source = foldl (\<lambda>acc (k, v). AList.update k v acc) target source"

definition spread :: "'a object list \<Rightarrow> 'a object" where
  "spread sources = foldl assign [] sources"

subsection \<open>Collaborators\<close>

text \<open>The two helpers imported from \<^verbatim>\<open>../utils.js\<close> (line 7), which is not part of the
  sources: the middlewares take them as parameters. \<open>resolveProperties\<close> is awaited
  and may reject.\<close>

record utils =
  resolveProperties :: "UserOperationStruct \<Rightarrow> error + lit object"
  deepHexlify :: "lit object \<Rightarrow> UserOperationRequest"

text \<open>The argument of \<^verbatim>\<open>request\<close> (lines 12-20 and 22-31): the method name selects the
  constructor, the single element of \<^verbatim>\<open>params\<close> gives its arguments, in the order
  policyId, entryPoint, userOperation and, for the combined method, dummySignature.\<close>

datatype rpc_args =
    alchemy_requestPaymasterAndData string Address UserOperationRequest
  | alchemy_requestGasAndPaymasterAndData string Address UserOperationRequest Hex

text \<open>The two result types of \<^verbatim>\<open>request\<close> (lines 21 and 32-39).\<close>

record PaymasterAndDataResult =
  paymasterAndData :: Hex

record GasAndPaymasterAndDataResult = PaymasterAndDataResult +
  callGasLimit :: Hex
  verificationGasLimit :: Hex
  preVerificationGas :: Hex
  maxFeePerGas :: Hex
  maxPriorityFeePerGas :: Hex

text \<open>The own properties of a combined result, as line 96 spreads them.\<close>

definition result_fields :: "GasAndPaymasterAndDataResult \<Rightarrow> UserOperationStruct" where
  "result_fields result =
     [(''paymasterAndData'', Value (HexString (paymasterAndData result))),
      (''callGasLimit'', Value (HexString (callGasLimit result))),
      (''verificationGasLimit'', Value (HexString (verificationGasLimit result))),
      (''preVerificationGas'', Value (HexString (preVerificationGas result))),
      (''maxFeePerGas'', Value (HexString (maxFeePerGas result))),
      (''maxPriorityFeePerGas'', Value (HexString (maxPriorityFeePerGas result)))]"

record Chain =
  chain_id :: int

text \<open>\<^verbatim>\<open>ClientWithAlchemyMethods\<close> (lines 9-41): the client's chain, and \<^verbatim>\<open>request\<close> at
  each of its two overloads, one field per result type.\<close>

record 'w ClientWithAlchemyMethods =
  chain :: Chain
  request_PaymasterAndData :: "rpc_args \<Rightarrow> ('w, PaymasterAndDataResult) async"
  request_GasAndPaymasterAndData :: "rpc_args \<Rightarrow> ('w, GasAndPaymasterAndDataResult) async"

record 'w AlchemyPaymasterConfig =
  policyId :: string
  entryPoint :: Address
  provider :: "'w ClientWithAlchemyMethods"

subsection \<open>alchemyPaymasterAndDataMiddleware (lines 109-144)\<close>

text \<open>The two placeholder literals of lines 119 and 124.\<close>

definition dummyPaymasterAndData_known :: Hex where
  "dummyPaymasterAndData_known =
     ''0x4Fd9098af9ddcB41DA48A1d78F91F1398965addcfffffffffffffffffffffffffffffffffffffffffffffffffffffffffffffffffffffffffffffffffffffffffffffff0000000000000000000000000000000007aaaaaaaaaaaaaaaaaaaaaaaaaaaaaaaaaaaaaaaaaaaaaaaaaaaaaaaaaaaaaaa1c''"

definition dummyPaymasterAndData_default :: Hex where
  "dummyPaymasterAndData_default =
     ''0xc03aac639bb21233e0139381970328db8bceeb67fffffffffffffffffffffffffffffffffffffffffffffffffffffffffffffffffffffffffffffffffffffffffffffff0000000000000000000000000000000007aaaaaaaaaaaaaaaaaaaaaaaaaaaaaaaaaaaaaaaaaaaaaaaaaaaaaaaaaaaaaaa1c''"

record 'w PaymasterMiddlewareOverrides =
  dummyPaymasterDataMiddleware :: "'w middleware"
  paymasterDataMiddleware :: "'w middleware"

definition alchemyPaymasterAndDataMiddleware ::
  "utils \<Rightarrow> 'w AlchemyPaymasterConfig \<Rightarrow> 'w PaymasterMiddlewareOverrides" where
  "alchemyPaymasterAndDataMiddleware u config =
     \<lparr> dummyPaymasterDataMiddleware = (\<lambda>_ w.
         (if chain_id (chain (provider config)) = 1
             \<or> chain_id (chain (provider config)) = 137
             \<or> chain_id (chain (provider config)) = 42161
          then (Inr [(''paymasterAndData'', Value (HexString dummyPaymasterAndData_known))], w)
          else (Inr [(''paymasterAndData'', Value (HexString dummyPaymasterAndData_default))], w))),
       paymasterDataMiddleware = (\<lambda>struct w.
         (case resolveProperties u struct of
            Inl e \<Rightarrow> (Inl e, w)
          | Inr resolved \<Rightarrow>
              (case request_PaymasterAndData (provider config)
                      (alchemy_requestPaymasterAndData (policyId config) (entryPoint config)
                         (deepHexlify u resolved)) w of
                 (Inl e, w') \<Rightarrow> (Inl e, w')
               | (Inr result, w') \<Rightarrow>
                   (Inr [(''paymasterAndData'', Value (HexString (paymasterAndData result)))],
                    w')))) \<rparr>"

subsection \<open>withAlchemyGasManager (lines 57-100)\<close>

record BaseSmartContractAccount =
  getDummySignature :: Hex

text \<open>Modelled from the spec: the provider class (\<^verbatim>\<open>../provider/base.js\<close>) is not part of
  the sources. Of the provider, the account and the three stage slots that
  \<^verbatim>\<open>withAlchemyGasManager\<close> installs are kept; each slot holds at most one function, and
  installing a function replaces the previous one (spec section 3, StageSlot). The custom
  stage is optional (spec section 4.5, step 4).\<close>

record 'w SmartAccountProvider =
  account :: BaseSmartContractAccount
  gasEstimator :: "'w middleware"
  feeDataGetter :: "'w middleware"
  customMiddleware :: "'w middleware option"

definition withGasEstimator ::
  "'w SmartAccountProvider \<Rightarrow> 'w middleware \<Rightarrow> 'w SmartAccountProvider" where
  "withGasEstimator prov override = prov\<lparr>gasEstimator := override\<rparr>"

definition withFeeDataGetter ::
  "'w SmartAccountProvider \<Rightarrow> 'w middleware \<Rightarrow> 'w SmartAccountProvider" where
  "withFeeDataGetter prov override = prov\<lparr>feeDataGetter := override\<rparr>"

definition withCustomMiddleware ::
  "'w SmartAccountProvider \<Rightarrow> 'w middleware \<Rightarrow> 'w SmartAccountProvider" where
  "withCustomMiddleware prov override = prov\<lparr>customMiddleware := Some override\<rparr>"

text \<open>Lines 66-99. In the parameter object of line 85 the properties are evaluated in
  order, so a rejection of \<^verbatim>\<open>resolveProperties\<close> ends the middleware before any request
  is made.\<close>

definition withAlchemyGasManager ::
  "utils \<Rightarrow> 'w SmartAccountProvider \<Rightarrow> 'w AlchemyPaymasterConfig \<Rightarrow> 'w SmartAccountProvider" where
  "withAlchemyGasManager u prov config =
     withCustomMiddleware
       (withFeeDataGetter
          (withGasEstimator prov
             (\<lambda>_ w.
                (Inr [(''callGasLimit'', Value (BigInt 0)),
                      (''preVerificationGas'', Value (BigInt 0)),
                      (''verificationGasLimit'', Value (BigInt 0))], w)))
          (\<lambda>_ w.
             (Inr [(''maxFeePerGas'', Value (BigInt 0)),
                   (''maxPriorityFeePerGas'', Value (BigInt 0))], w)))
       (\<lambda>struct w.
          (case resolveProperties u struct of
             Inl e \<Rightarrow> (Inl e, w)
           | Inr resolved \<Rightarrow>
               (case request_GasAndPaymasterAndData (provider config)
                       (alchemy_requestGasAndPaymasterAndData (policyId config) (entryPoint config)
                          (deepHexlify u resolved) (getDummySignature (account prov))) w of
                  (Inl e, w') \<Rightarrow> (Inl e, w')
                | (Inr result, w') \<Rightarrow> (Inr (spread [struct, result_fields result]), w'))))"

subsection \<open>Observing the requests a middleware sends\<close>

text \<open>A client that behaves as \<open>c\<close> does and appends the argument of every request it
  receives to a log kept beside the state of \<open>c\<close>.\<close>

definition recording ::
  "'w ClientWithAlchemyMethods \<Rightarrow> ('w \<times> rpc_args list) ClientWithAlchemyMethods" where
  "recording c =
     \<lparr> chain = chain c,
       request_PaymasterAndData = (\<lambda>args (w, sent).
         (case request_PaymasterAndData c args w of (r, w') \<Rightarrow> (r, (w', sent @ [args])))),
       request_GasAndPaymasterAndData = (\<lambda>args (w, sent).
         (case request_GasAndPaymasterAndData c args w of (r, w') \<Rightarrow> (r, (w', sent @ [args])))) \<rparr>"

text \<open>A stateless client on chain \<open>cid\<close> that settles every request of either method with
  a fixed outcome.\<close>

definition cannedClient ::
  "int \<Rightarrow> error + PaymasterAndDataResult \<Rightarrow> error + GasAndPaymasterAndDataResult
     \<Rightarrow> unit ClientWithAlchemyMethods" where
  "cannedClient cid r1 r2 =
     \<lparr> chain = \<lparr> chain_id = cid \<rparr>,
       request_PaymasterAndData = (\<lambda>_ w. (r1, w)),
       request_GasAndPaymasterAndData = (\<lambda>_ w. (r2, w)) \<rparr>"

subsection \<open>The helpers of utils.js\<close>

text \<open>Modelled from the spec: \<^verbatim>\<open>resolveProperties\<close> of \<^verbatim>\<open>../utils.js\<close>, which is not part
  of the sources (spec section 4.1). Every property is resolved to its plain value; if a
  property's resolution fails, the failure is the result and no partial record is
  returned.\<close>

fun resolveAll :: "UserOperationStruct \<Rightarrow> error + lit object" where
  "resolveAll [] = Inr []"
| "resolveAll ((k, Value v) # rest) =
     (case resolveAll rest of Inl e \<Rightarrow> Inl e | Inr r \<Rightarrow> Inr ((k, v) # r))"
| "resolveAll ((k, Deferred (Inl e)) # rest) = Inl e"
| "resolveAll ((k, Deferred (Inr v)) # rest) =
     (case resolveAll rest of Inl e \<Rightarrow> Inl e | Inr r \<Rightarrow> Inr ((k, v) # r))"

text \<open>Modelled from the spec: \<^verbatim>\<open>deepHexlify\<close> of \<^verbatim>\<open>../utils.js\<close>, which is not part of the
  sources (spec section 4.2). A number becomes a \<^verbatim>\<open>0x\<close>-prefixed lowercase hexadecimal
  string without leading zeros; a hex string passes through.\<close>

definition hexDigit :: "nat \<Rightarrow> char" where
  "hexDigit d = ''0123456789abcdef'' ! (d mod 16)"

fun hexDigits :: "nat \<Rightarrow> string" where
  "hexDigits n = (if n < 16 then [hexDigit n] else hexDigits (n div 16) @ [hexDigit n])"

declare hexDigits.simps [simp del]

fun hexlify :: "lit \<Rightarrow> Hex" where
  "hexlify (HexString h) = h"
| "hexlify (BigInt n) = ''0x'' @ hexDigits n"

definition hexlifyAll :: "lit object \<Rightarrow> UserOperationRequest" where
  "hexlifyAll obj = map (\<lambda>(k, v). (k, hexlify v)) obj"

definition specUtils :: utils where
  "specUtils = \<lparr> resolveProperties = resolveAll, deepHexlify = hexlifyAll \<rparr>"

subsection \<open>The middlewares over a store of objects\<close>

text \<open>A JavaScript object is passed by reference. To speak of what a middleware does to
  the objects of its caller, the same three functions are written once more over a store:
  a reference is an index into the store, reading a property reads the store at call
  time, and an object literal allocates a cell that did not exist before. The config is
  the object captured when the middleware was created; the struct is the argument. The
  helpers of \<^verbatim>\<open>../utils.js\<close> read the struct they are given and return a new record (spec
  section 4.1), and the client is handed only the parameter object built for the call.

  A reference held by a running program always points into the store. A call with a
  reference that does not is no run of the program: its value is \<open>None\<close>.\<close>

type_synonym ref = nat

record 'w store =
  structs :: "UserOperationStruct list"
  configs :: "'w AlchemyPaymasterConfig list"

type_synonym 'w outcome = "(error + ref) \<times> 'w store \<times> 'w"

definition deref :: "'a list \<Rightarrow> ref \<Rightarrow> 'a option" where
  "deref cells a = (if a < length cells then Some (cells ! a) else None)"

definition new_object :: "UserOperationStruct \<Rightarrow> 'w store \<Rightarrow> 'w \<Rightarrow> 'w outcome" where
  "new_object obj s w = (Inr (length (structs s)), s\<lparr>structs := structs s @ [obj]\<rparr>, w)"

definition dummyPaymasterDataMiddleware_store ::
  "ref \<Rightarrow> ref \<Rightarrow> 'w store \<Rightarrow> 'w \<Rightarrow> 'w outcome option" where
  "dummyPaymasterDataMiddleware_store config struct s w =
     (case (deref (configs s) config, deref (structs s) struct) of
        (Some cfg, Some _) \<Rightarrow>
          Some (if chain_id (chain (provider cfg)) = 1
                   \<or> chain_id (chain (provider cfg)) = 137
                   \<or> chain_id (chain (provider cfg)) = 42161
                then new_object
                       [(''paymasterAndData'', Value (HexString dummyPaymasterAndData_known))] s w
                else new_object
                       [(''paymasterAndData'', Value (HexString dummyPaymasterAndData_default))] s w)
      | _ \<Rightarrow> None)"

definition paymasterDataMiddleware_store ::
  "utils \<Rightarrow> ref \<Rightarrow> ref \<Rightarrow> 'w store \<Rightarrow> 'w \<Rightarrow> 'w outcome option" where
  "paymasterDataMiddleware_store u config struct s w =
     (case (deref (configs s) config, deref (structs s) struct) of
        (Some cfg, Some str) \<Rightarrow>
          Some (case resolveProperties u str of
                  Inl e \<Rightarrow> (Inl e, s, w)
                | Inr resolved \<Rightarrow>
                    (case request_PaymasterAndData (provider cfg)
                            (alchemy_requestPaymasterAndData (policyId cfg) (entryPoint cfg)
                               (deepHexlify u resolved)) w of
                       (Inl e, w') \<Rightarrow> (Inl e, s, w')
                     | (Inr result, w') \<Rightarrow>
                         new_object
                           [(''paymasterAndData'', Value (HexString (paymasterAndData result)))]
                           s w'))
      | _ \<Rightarrow> None)"

definition customMiddleware_store ::
  "utils \<Rightarrow> BaseSmartContractAccount \<Rightarrow> ref \<Rightarrow> ref \<Rightarrow> 'w store \<Rightarrow> 'w
     \<Rightarrow> 'w outcome option" where
  "customMiddleware_store u acct config struct s w =
     (case (deref (configs s) config, deref (structs s) struct) of
        (Some cfg, Some str) \<Rightarrow>
          Some (case resolveProperties u str of
                  Inl e \<Rightarrow> (Inl e, s, w)
                | Inr resolved \<Rightarrow>
                    (case request_GasAndPaymasterAndData (provider cfg)
                            (alchemy_requestGasAndPaymasterAndData (policyId cfg) (entryPoint cfg)
                               (deepHexlify u resolved) (getDummySignature acct)) w of
                       (Inl e, w') \<Rightarrow> (Inl e, s, w')
                     | (Inr result, w') \<Rightarrow>
                         new_object (spread [str, result_fields result]) s w'))
      | _ \<Rightarrow> None)"

text \<open>What a call leaves of the store \<open>s\<close> it started from: the configs are as they were,
  every struct that existed is as it was, a rejected call leaves the whole store as it
  was, and a fulfilled call returns the one cell that was added.\<close>

definition leaves_caller_objects :: "'w store \<Rightarrow> 'w outcome \<Rightarrow> bool" where
  "leaves_caller_objects s outcome =
     (case outcome of (r, s', w') \<Rightarrow>
        configs s' = configs s
        \<and> take (length (structs s)) (structs s') = structs s
        \<and> (case r of
             Inl e \<Rightarrow> s' = s
           | Inr a \<Rightarrow> a = length (structs s) \<and> length (structs s') = Suc a))"

subsection \<open>Concrete inputs\<close>

text \<open>A user operation as the combined mode leaves it before the custom stage: the gas and
  fee properties are the zeros of the two inert stages, the nonce is still a promise.\<close>

definition exampleStruct :: UserOperationStruct where
  "exampleStruct =
     [(''sender'', Value (HexString ''0x00000000000000000000000000000000000000aa'')),
      (''nonce'', Deferred (Inr (BigInt 7))),
      (''initCode'', Value (HexString ''0x'')),
      (''callData'', Value (HexString ''0xb61d27f6'')),
      (''callGasLimit'', Value (BigInt 0)),
      (''verificationGasLimit'', Value (BigInt 0)),
      (''preVerificationGas'', Value (BigInt 0)),
      (''maxFeePerGas'', Value (BigInt 0)),
      (''maxPriorityFeePerGas'', Value (BigInt 0)),
      (''paymasterAndData'', Value (HexString ''0x'')),
      (''signature'', Value (HexString ''0xfffffffffffffffffffffffffffffff01b''))]"

text \<open>A second, different user operation, for a second call.\<close>

definition exampleStruct2 :: UserOperationStruct where
  "exampleStruct2 =
     [(''sender'', Value (HexString ''0x00000000000000000000000000000000000000aa'')),
      (''nonce'', Value (BigInt 255))]"

definition exampleResult :: GasAndPaymasterAndDataResult where
  "exampleResult =
     \<lparr> paymasterAndData = ''0xabc'',
       callGasLimit = ''0x3e8'',
       verificationGasLimit = ''0x7d0'',
       preVerificationGas = ''0xbb8'',
       maxFeePerGas = ''0x64'',
       maxPriorityFeePerGas = ''0xa'' \<rparr>"

definition exampleConfig ::
  "'w ClientWithAlchemyMethods \<Rightarrow> 'w AlchemyPaymasterConfig" where
  "exampleConfig client =
     \<lparr> policyId = ''policy-1'',
       entryPoint = ''0x5FF137D4b0FDCD49DcA30c7CF57E578a026d2789'',
       provider = client \<rparr>"

definition exampleClient :: "int \<Rightarrow> unit ClientWithAlchemyMethods" where
  "exampleClient cid = cannedClient cid (Inr \<lparr> paymasterAndData = ''0xabc'' \<rparr>) (Inr exampleResult)"

definition failingClient :: "error \<Rightarrow> unit ClientWithAlchemyMethods" where
  "failingClient e = cannedClient 1 (Inl e) (Inl e)"

definition exampleProvider :: "'w SmartAccountProvider" where
  "exampleProvider =
     \<lparr> account = \<lparr> getDummySignature = ''0xfffffffffffffffffffffffffffffff01c'' \<rparr>,
       gasEstimator = (\<lambda>_ w. (Inr [], w)),
       feeDataGetter = (\<lambda>_ w. (Inr [], w)),
       customMiddleware = None \<rparr>"

section \<open>Properties\<close>

lemmas gasManager_defs =
  withAlchemyGasManager_def withCustomMiddleware_def withFeeDataGetter_def withGasEstimator_def

subsection \<open>Object spread is a shallow merge\<close>

text \<open>A JavaScript object has each key once. On such sources, assigning looks up as the
  right-biased union of the two maps, and the result has each key once again.\<close>

lemma map_of_assign:
  "distinct (map fst s) \<Longrightarrow> map_of (assign t s) = map_of t ++ map_of s"
  unfolding assign_def
proof (induction s arbitrary: t)
  case Nil
  then show ?case by simp
next
  case (Cons p s)
  obtain k v where p: "p = (k, v)" by (cases p)
  from Cons.prems p have k: "k \<notin> fst ` set s" and d: "distinct (map fst s)" by auto
  have none: "map_of s k = None" using k by (simp add: map_of_eq_None_iff)
  have "map_of (foldl (\<lambda>acc (k, v). AList.update k v acc) t (p # s))
        = map_of (foldl (\<lambda>acc (k, v). AList.update k v acc) (AList.update k v t) s)"
    by (simp add: p)
  also have "\<dots> = map_of (AList.update k v t) ++ map_of s"
    by (rule Cons.IH [OF d])
  also have "\<dots> = (map_of t)(k \<mapsto> v) ++ map_of s"
    by (simp only: update_conv')
  also have "\<dots> = map_of t ++ (map_of s)(k \<mapsto> v)"
    using none by (auto simp: fun_eq_iff map_add_def split: option.splits)
  also have "\<dots> = map_of t ++ map_of (p # s)"
    by (simp add: p)
  finally show ?case .
qed

lemma distinct_assign:
  "distinct (map fst t) \<Longrightarrow> distinct (map fst (assign t s))"
  unfolding assign_def
  by (induction s arbitrary: t) (auto simp: distinct_update)

lemma map_of_spread2:
  "distinct (map fst a) \<Longrightarrow> distinct (map fst b) \<Longrightarrow> map_of (spread [a, b]) = map_of a ++ map_of b"
  by (simp add: spread_def map_of_assign)

lemma distinct_spread: "distinct (map fst (spread xs))"
proof -
  have "distinct (map fst t) \<Longrightarrow> distinct (map fst (foldl assign t xs))" for t :: "'a object"
    by (induction xs arbitrary: t) (auto simp: distinct_assign)
  then show ?thesis by (simp add: spread_def)
qed

lemma distinct_result_fields: "distinct (map fst (result_fields r))"
  by (simp add: result_fields_def)

subsection \<open>The concrete inputs, resolved and hex-normalised\<close>

lemmas example_defs =
  exampleConfig_def exampleClient_def failingClient_def cannedClient_def exampleProvider_def
  exampleResult_def

lemma resolve_exampleStruct:
  "resolveProperties specUtils exampleStruct =
     Inr [(''sender'', HexString ''0x00000000000000000000000000000000000000aa''),
          (''nonce'', BigInt 7),
          (''initCode'', HexString ''0x''),
          (''callData'', HexString ''0xb61d27f6''),
          (''callGasLimit'', BigInt 0),
          (''verificationGasLimit'', BigInt 0),
          (''preVerificationGas'', BigInt 0),
          (''maxFeePerGas'', BigInt 0),
          (''maxPriorityFeePerGas'', BigInt 0),
          (''paymasterAndData'', HexString ''0x''),
          (''signature'', HexString ''0xfffffffffffffffffffffffffffffff01b'')]"
  by (simp add: specUtils_def exampleStruct_def)

lemma hexlify_exampleStruct:
  "deepHexlify specUtils
     [(''sender'', HexString ''0x00000000000000000000000000000000000000aa''),
      (''nonce'', BigInt 7),
      (''initCode'', HexString ''0x''),
      (''callData'', HexString ''0xb61d27f6''),
      (''callGasLimit'', BigInt 0),
      (''verificationGasLimit'', BigInt 0),
      (''preVerificationGas'', BigInt 0),
      (''maxFeePerGas'', BigInt 0),
      (''maxPriorityFeePerGas'', BigInt 0),
      (''paymasterAndData'', HexString ''0x''),
      (''signature'', HexString ''0xfffffffffffffffffffffffffffffff01b'')]
   = [(''sender'', ''0x00000000000000000000000000000000000000aa''),
      (''nonce'', ''0x7''),
      (''initCode'', ''0x''),
      (''callData'', ''0xb61d27f6''),
      (''callGasLimit'', ''0x0''),
      (''verificationGasLimit'', ''0x0''),
      (''preVerificationGas'', ''0x0''),
      (''maxFeePerGas'', ''0x0''),
      (''maxPriorityFeePerGas'', ''0x0''),
      (''paymasterAndData'', ''0x''),
      (''signature'', ''0xfffffffffffffffffffffffffffffff01b'')]"
  by (simp add: specUtils_def hexlifyAll_def hexDigits.simps hexDigit_def)

lemma distinct_exampleStruct: "distinct (map fst exampleStruct)"
  by (simp add: exampleStruct_def)

subsection \<open>The combined stage merges the remote result into the struct\<close>

text \<open>Claim C1. Whenever the struct resolves and the \<^verbatim>\<open>alchemy_requestGasAndPaymasterAndData\<close>
  call fulfils with a result, the custom middleware installed by \<^verbatim>\<open>withAlchemyGasManager\<close>
  fulfils with the struct shallow-merged with that result: each of the six properties of
  the result holds the remote value, whatever the struct held there, and every other
  property is as the struct had it.\<close>

theorem gasManager_custom_merges_result:
  assumes wf: "distinct (map fst struct)"
    and res: "resolveProperties u struct = Inr resolved"
    and req: "request_GasAndPaymasterAndData (provider config)
                (alchemy_requestGasAndPaymasterAndData (policyId config) (entryPoint config)
                   (deepHexlify u resolved) (getDummySignature (account prov))) w
              = (Inr result, w')"
  shows "\<exists>m out. customMiddleware (withAlchemyGasManager u prov config) = Some m
           \<and> m struct w = (Inr out, w')
           \<and> map_of out ''paymasterAndData'' = Some (Value (HexString (paymasterAndData result)))
           \<and> map_of out ''callGasLimit'' = Some (Value (HexString (callGasLimit result)))
           \<and> map_of out ''verificationGasLimit'' = Some (Value (HexString (verificationGasLimit result)))
           \<and> map_of out ''preVerificationGas'' = Some (Value (HexString (preVerificationGas result)))
           \<and> map_of out ''maxFeePerGas'' = Some (Value (HexString (maxFeePerGas result)))
           \<and> map_of out ''maxPriorityFeePerGas'' = Some (Value (HexString (maxPriorityFeePerGas result)))
           \<and> (\<forall>k. k \<notin> {''paymasterAndData'', ''callGasLimit'', ''verificationGasLimit'',
                         ''preVerificationGas'', ''maxFeePerGas'', ''maxPriorityFeePerGas''}
                  \<longrightarrow> map_of out k = map_of struct k)"
proof -
  let ?out = "spread [struct, result_fields result]"
  have m: "map_of ?out = map_of struct ++ map_of (result_fields result)"
    by (rule map_of_spread2 [OF wf distinct_result_fields])
  have run: "\<exists>m. customMiddleware (withAlchemyGasManager u prov config) = Some m
               \<and> m struct w = (Inr ?out, w')"
    by (simp add: gasManager_defs res req)
  have look: "map_of ?out k = (case map_of (result_fields result) k of
                                 None \<Rightarrow> map_of struct k | Some v \<Rightarrow> Some v)" for k
    by (simp add: m map_add_def)
  have inside: "map_of (result_fields result) =
      [''maxPriorityFeePerGas'' \<mapsto> Value (HexString (maxPriorityFeePerGas result)),
       ''maxFeePerGas'' \<mapsto> Value (HexString (maxFeePerGas result)),
       ''preVerificationGas'' \<mapsto> Value (HexString (preVerificationGas result)),
       ''verificationGasLimit'' \<mapsto> Value (HexString (verificationGasLimit result)),
       ''callGasLimit'' \<mapsto> Value (HexString (callGasLimit result)),
       ''paymasterAndData'' \<mapsto> Value (HexString (paymasterAndData result))]"
    by (simp add: result_fields_def)
  have fields: "map_of ?out ''paymasterAndData'' = Some (Value (HexString (paymasterAndData result)))"
    "map_of ?out ''callGasLimit'' = Some (Value (HexString (callGasLimit result)))"
    "map_of ?out ''verificationGasLimit'' = Some (Value (HexString (verificationGasLimit result)))"
    "map_of ?out ''preVerificationGas'' = Some (Value (HexString (preVerificationGas result)))"
    "map_of ?out ''maxFeePerGas'' = Some (Value (HexString (maxFeePerGas result)))"
    "map_of ?out ''maxPriorityFeePerGas'' = Some (Value (HexString (maxPriorityFeePerGas result)))"
    by (simp_all add: look inside)
  have others: "map_of ?out k = map_of struct k"
    if "k \<notin> {''paymasterAndData'', ''callGasLimit'', ''verificationGasLimit'',
               ''preVerificationGas'', ''maxFeePerGas'', ''maxPriorityFeePerGas''}" for k
    using that by (simp add: look inside)
  from run obtain m where "customMiddleware (withAlchemyGasManager u prov config) = Some m"
    and "m struct w = (Inr ?out, w')" by blast
  with fields others show ?thesis by blast
qed

text \<open>On the example struct the zeroed gas and fee properties are replaced by the remote
  values, while the sender and the still deferred nonce are carried over.\<close>

theorem gasManager_custom_merges_result_witness:
  "distinct (map fst exampleStruct)
   \<and> (\<exists>resolved. resolveProperties specUtils exampleStruct = Inr resolved)
   \<and> map_of exampleStruct ''callGasLimit'' = Some (Value (BigInt 0))
   \<and> map_of exampleStruct ''maxFeePerGas'' = Some (Value (BigInt 0))
   \<and> (\<exists>m out. customMiddleware
                  (withAlchemyGasManager specUtils exampleProvider
                     (exampleConfig (exampleClient 1))) = Some m
         \<and> m exampleStruct () = (Inr out, ())
         \<and> map_of out ''paymasterAndData'' = Some (Value (HexString ''0xabc''))
         \<and> map_of out ''callGasLimit'' = Some (Value (HexString ''0x3e8''))
         \<and> map_of out ''verificationGasLimit'' = Some (Value (HexString ''0x7d0''))
         \<and> map_of out ''preVerificationGas'' = Some (Value (HexString ''0xbb8''))
         \<and> map_of out ''maxFeePerGas'' = Some (Value (HexString ''0x64''))
         \<and> map_of out ''maxPriorityFeePerGas'' = Some (Value (HexString ''0xa''))
         \<and> map_of out ''nonce'' = Some (Deferred (Inr (BigInt 7)))
         \<and> map_of out ''sender'' = map_of exampleStruct ''sender'')"
proof -
  note res = resolve_exampleStruct
  have req: "request_GasAndPaymasterAndData (provider (exampleConfig (exampleClient 1)))
               (alchemy_requestGasAndPaymasterAndData (policyId (exampleConfig (exampleClient 1)))
                  (entryPoint (exampleConfig (exampleClient 1))) (deepHexlify specUtils r)
                  (getDummySignature (account exampleProvider))) ()
             = (Inr exampleResult, ())" for r
    by (simp add: example_defs)
  from gasManager_custom_merges_result [OF distinct_exampleStruct res req]
  obtain m out where m: "customMiddleware (withAlchemyGasManager specUtils exampleProvider
                           (exampleConfig (exampleClient 1))) = Some m"
    and run: "m exampleStruct () = (Inr out, ())"
    and f: "map_of out ''paymasterAndData'' = Some (Value (HexString (paymasterAndData exampleResult)))"
      "map_of out ''callGasLimit'' = Some (Value (HexString (callGasLimit exampleResult)))"
      "map_of out ''verificationGasLimit'' = Some (Value (HexString (verificationGasLimit exampleResult)))"
      "map_of out ''preVerificationGas'' = Some (Value (HexString (preVerificationGas exampleResult)))"
      "map_of out ''maxFeePerGas'' = Some (Value (HexString (maxFeePerGas exampleResult)))"
      "map_of out ''maxPriorityFeePerGas'' = Some (Value (HexString (maxPriorityFeePerGas exampleResult)))"
    and rest: "\<forall>k. k \<notin> {''paymasterAndData'', ''callGasLimit'', ''verificationGasLimit'',
                         ''preVerificationGas'', ''maxFeePerGas'', ''maxPriorityFeePerGas''}
                  \<longrightarrow> map_of out k = map_of exampleStruct k"
    by blast
  from rest have "map_of out ''nonce'' = map_of exampleStruct ''nonce''"
    and s: "map_of out ''sender'' = map_of exampleStruct ''sender''" by simp_all
  then have n: "map_of out ''nonce'' = Some (Deferred (Inr (BigInt 7)))"
    by (simp add: exampleStruct_def)
  have z: "map_of exampleStruct ''callGasLimit'' = Some (Value (BigInt 0))"
    "map_of exampleStruct ''maxFeePerGas'' = Some (Value (BigInt 0))"
    by (simp_all add: exampleStruct_def)
  from f have f': "map_of out ''paymasterAndData'' = Some (Value (HexString ''0xabc''))"
      "map_of out ''callGasLimit'' = Some (Value (HexString ''0x3e8''))"
      "map_of out ''verificationGasLimit'' = Some (Value (HexString ''0x7d0''))"
      "map_of out ''preVerificationGas'' = Some (Value (HexString ''0xbb8''))"
      "map_of out ''maxFeePerGas'' = Some (Value (HexString ''0x64''))"
      "map_of out ''maxPriorityFeePerGas'' = Some (Value (HexString ''0xa''))"
    by (simp_all add: exampleResult_def)
  from res have r: "\<exists>resolved. resolveProperties specUtils exampleStruct = Inr resolved" by blast
  from m run f' n s have "\<exists>m out. customMiddleware
                  (withAlchemyGasManager specUtils exampleProvider
                     (exampleConfig (exampleClient 1))) = Some m
         \<and> m exampleStruct () = (Inr out, ())
         \<and> map_of out ''paymasterAndData'' = Some (Value (HexString ''0xabc''))
         \<and> map_of out ''callGasLimit'' = Some (Value (HexString ''0x3e8''))
         \<and> map_of out ''verificationGasLimit'' = Some (Value (HexString ''0x7d0''))
         \<and> map_of out ''preVerificationGas'' = Some (Value (HexString ''0xbb8''))
         \<and> map_of out ''maxFeePerGas'' = Some (Value (HexString ''0x64''))
         \<and> map_of out ''maxPriorityFeePerGas'' = Some (Value (HexString ''0xa''))
         \<and> map_of out ''nonce'' = Some (Deferred (Inr (BigInt 7)))
         \<and> map_of out ''sender'' = map_of exampleStruct ''sender''"
    by blast
  with distinct_exampleStruct r z show ?thesis by blast
qed

subsection \<open>The placeholder of the dummy stage\<close>

text \<open>Claim C2, as stated, asks for three pairwise distinct placeholders for the chain ids 1,
  137 and 42161. The three case labels of lines 114-116 fall through to one return
  statement, so the three results are the same value.\<close>

theorem dummy_placeholders_distinct_counterexample:
  "\<not> distinct
       [fst (dummyPaymasterDataMiddleware
               (alchemyPaymasterAndDataMiddleware specUtils (exampleConfig (exampleClient 1)))
               exampleStruct ()),
        fst (dummyPaymasterDataMiddleware
               (alchemyPaymasterAndDataMiddleware specUtils (exampleConfig (exampleClient 137)))
               exampleStruct ()),
        fst (dummyPaymasterDataMiddleware
               (alchemyPaymasterAndDataMiddleware specUtils (exampleConfig (exampleClient 42161)))
               exampleStruct ())]"
  by (simp add: alchemyPaymasterAndDataMiddleware_def example_defs)

text \<open>Claim C2, amended. For the chain ids 1, 137 and 42161 the dummy stage returns one
  shared fixed placeholder, for every other chain id it returns the default placeholder,
  and the two placeholders differ.\<close>

theorem dummy_placeholder_by_chain:
  "dummyPaymasterDataMiddleware (alchemyPaymasterAndDataMiddleware u config) struct w =
     (Inr [(''paymasterAndData'', Value (HexString
        (if chain_id (chain (provider config)) \<in> {1, 137, 42161}
         then dummyPaymasterAndData_known else dummyPaymasterAndData_default)))], w)
   \<and> dummyPaymasterAndData_known \<noteq> dummyPaymasterAndData_default"
  by (simp add: alchemyPaymasterAndDataMiddleware_def
      dummyPaymasterAndData_known_def dummyPaymasterAndData_default_def)

text \<open>Chain 137 gets the shared placeholder of the known chains, chain 10 the default.\<close>

theorem dummy_placeholder_by_chain_witness:
  "dummyPaymasterDataMiddleware
     (alchemyPaymasterAndDataMiddleware specUtils (exampleConfig (exampleClient 137)))
     exampleStruct () =
     (Inr [(''paymasterAndData'', Value (HexString dummyPaymasterAndData_known))], ())
   \<and> dummyPaymasterDataMiddleware
     (alchemyPaymasterAndDataMiddleware specUtils (exampleConfig (exampleClient 10)))
     exampleStruct () =
     (Inr [(''paymasterAndData'', Value (HexString dummyPaymasterAndData_default))], ())
   \<and> dummyPaymasterAndData_known \<noteq> dummyPaymasterAndData_default"
  using dummy_placeholder_by_chain [of specUtils "exampleConfig (exampleClient 137)" exampleStruct "()"]
    dummy_placeholder_by_chain [of specUtils "exampleConfig (exampleClient 10)" exampleStruct "()"]
  by (simp add: example_defs)

subsection \<open>The inert gas and fee stages\<close>

text \<open>Claim C3. The gas estimator installed by \<^verbatim>\<open>withAlchemyGasManager\<close> fulfils with
  exactly the three gas limits set to zero, and the fee-data getter it installs with
  exactly the two fees set to zero, for every struct and every transport state, which
  they leave as it was.\<close>

theorem gasManager_stages_return_zero:
  "gasEstimator (withAlchemyGasManager u prov config) struct w =
     (Inr [(''callGasLimit'', Value (BigInt 0)),
           (''preVerificationGas'', Value (BigInt 0)),
           (''verificationGasLimit'', Value (BigInt 0))], w)
   \<and> feeDataGetter (withAlchemyGasManager u prov config) struct w =
     (Inr [(''maxFeePerGas'', Value (BigInt 0)),
           (''maxPriorityFeePerGas'', Value (BigInt 0))], w)"
  by (simp add: gasManager_defs)

theorem gasManager_stages_return_zero_witness:
  "gasEstimator (withAlchemyGasManager specUtils exampleProvider (exampleConfig (exampleClient 1)))
     exampleStruct () =
     (Inr [(''callGasLimit'', Value (BigInt 0)),
           (''preVerificationGas'', Value (BigInt 0)),
           (''verificationGasLimit'', Value (BigInt 0))], ())
   \<and> feeDataGetter (withAlchemyGasManager specUtils exampleProvider (exampleConfig (exampleClient 1)))
     [] () =
     (Inr [(''maxFeePerGas'', Value (BigInt 0)),
           (''maxPriorityFeePerGas'', Value (BigInt 0))], ())"
  using gasManager_stages_return_zero [of specUtils exampleProvider "exampleConfig (exampleClient 1)" exampleStruct "()"]
    gasManager_stages_return_zero [of specUtils exampleProvider "exampleConfig (exampleClient 1)" "[]" "()"]
  by blast

subsection \<open>What is sent to the remote service\<close>

text \<open>Claim C4. With a recording client, a call of \<^verbatim>\<open>paymasterDataMiddleware\<close> or of the
  custom middleware of \<^verbatim>\<open>withAlchemyGasManager\<close> adds to the log exactly one request if the
  struct of this call resolves (and none if it does not); its userOperation parameter is
  \<^verbatim>\<open>deepHexlify\<close> applied to the resolved struct of this call, with the policy id and entry
  point of the config, and the combined method also carries the dummy signature of the
  provider's account.\<close>

theorem requests_sent:
  assumes c: "provider config = recording c"
  shows "snd (snd (paymasterDataMiddleware (alchemyPaymasterAndDataMiddleware u config)
                     struct (w, sent)))
         = sent @ (case resolveProperties u struct of
                     Inl e \<Rightarrow> []
                   | Inr resolved \<Rightarrow>
                       [alchemy_requestPaymasterAndData (policyId config) (entryPoint config)
                          (deepHexlify u resolved)])
       \<and> (\<exists>m. customMiddleware (withAlchemyGasManager u prov config) = Some m
             \<and> snd (snd (m struct (w, sent)))
               = sent @ (case resolveProperties u struct of
                           Inl e \<Rightarrow> []
                         | Inr resolved \<Rightarrow>
                             [alchemy_requestGasAndPaymasterAndData (policyId config)
                                (entryPoint config) (deepHexlify u resolved)
                                (getDummySignature (account prov))]))"
  by (auto simp: alchemyPaymasterAndDataMiddleware_def gasManager_defs c recording_def
      split: sum.splits prod.splits)

text \<open>Two calls in a row on two different structs: the log holds the projection of the
  first struct and then that of the second, each computed from the struct of its call.\<close>

theorem requests_sent_witness:
  "provider (exampleConfig (recording (exampleClient 1))) = recording (exampleClient 1)
   \<and> snd (snd (paymasterDataMiddleware
                 (alchemyPaymasterAndDataMiddleware specUtils
                    (exampleConfig (recording (exampleClient 1))))
                 exampleStruct2
                 (snd (paymasterDataMiddleware
                         (alchemyPaymasterAndDataMiddleware specUtils
                            (exampleConfig (recording (exampleClient 1))))
                         exampleStruct ((), [])))))
     = [alchemy_requestPaymasterAndData ''policy-1'' ''0x5FF137D4b0FDCD49DcA30c7CF57E578a026d2789''
          [(''sender'', ''0x00000000000000000000000000000000000000aa''),
           (''nonce'', ''0x7''),
           (''initCode'', ''0x''),
           (''callData'', ''0xb61d27f6''),
           (''callGasLimit'', ''0x0''),
           (''verificationGasLimit'', ''0x0''),
           (''preVerificationGas'', ''0x0''),
           (''maxFeePerGas'', ''0x0''),
           (''maxPriorityFeePerGas'', ''0x0''),
           (''paymasterAndData'', ''0x''),
           (''signature'', ''0xfffffffffffffffffffffffffffffff01b'')],
        alchemy_requestPaymasterAndData ''policy-1'' ''0x5FF137D4b0FDCD49DcA30c7CF57E578a026d2789''
          [(''sender'', ''0x00000000000000000000000000000000000000aa''),
           (''nonce'', ''0xff'')]]
   \<and> (\<exists>m. customMiddleware (withAlchemyGasManager specUtils exampleProvider
                               (exampleConfig (recording (exampleClient 1)))) = Some m
         \<and> snd (snd (m exampleStruct ((), [])))
           = [alchemy_requestGasAndPaymasterAndData ''policy-1''
                ''0x5FF137D4b0FDCD49DcA30c7CF57E578a026d2789''
                [(''sender'', ''0x00000000000000000000000000000000000000aa''),
                 (''nonce'', ''0x7''),
                 (''initCode'', ''0x''),
                 (''callData'', ''0xb61d27f6''),
                 (''callGasLimit'', ''0x0''),
                 (''verificationGasLimit'', ''0x0''),
                 (''preVerificationGas'', ''0x0''),
                 (''maxFeePerGas'', ''0x0''),
                 (''maxPriorityFeePerGas'', ''0x0''),
                 (''paymasterAndData'', ''0x''),
                 (''signature'', ''0xfffffffffffffffffffffffffffffff01b'')]
                ''0xfffffffffffffffffffffffffffffff01c''])"
proof -
  let ?cfg = "exampleConfig (recording (exampleClient 1))"
  let ?pm = "paymasterDataMiddleware (alchemyPaymasterAndDataMiddleware specUtils ?cfg)"
  have h: "provider ?cfg = recording (exampleClient 1)"
    by (simp add: exampleConfig_def)
  have cfg: "policyId ?cfg = ''policy-1''"
    "entryPoint ?cfg = ''0x5FF137D4b0FDCD49DcA30c7CF57E578a026d2789''"
    "getDummySignature (account exampleProvider) = ''0xfffffffffffffffffffffffffffffff01c''"
    by (simp_all add: exampleConfig_def exampleProvider_def)
  have r2: "resolveProperties specUtils exampleStruct2
            = Inr [(''sender'', HexString ''0x00000000000000000000000000000000000000aa''),
                   (''nonce'', BigInt 255)]"
    by (simp add: specUtils_def exampleStruct2_def)
  have x2: "deepHexlify specUtils
              [(''sender'', HexString ''0x00000000000000000000000000000000000000aa''),
               (''nonce'', BigInt 255)]
            = [(''sender'', ''0x00000000000000000000000000000000000000aa''), (''nonce'', ''0xff'')]"
    by (simp add: specUtils_def hexlifyAll_def hexDigits.simps hexDigit_def)
  note first = requests_sent [OF h, of specUtils exampleStruct "()" "[]" exampleProvider]
  obtain w1 sent1 where st: "snd (?pm exampleStruct ((), [])) = (w1, sent1)"
    by (cases "snd (?pm exampleStruct ((), []))")
  note second = requests_sent [OF h, of specUtils exampleStruct2 w1 sent1 exampleProvider]
  from first st have s1: "sent1 =
     [alchemy_requestPaymasterAndData ''policy-1'' ''0x5FF137D4b0FDCD49DcA30c7CF57E578a026d2789''
        (deepHexlify specUtils
           [(''sender'', HexString ''0x00000000000000000000000000000000000000aa''),
            (''nonce'', BigInt 7),
            (''initCode'', HexString ''0x''),
            (''callData'', HexString ''0xb61d27f6''),
            (''callGasLimit'', BigInt 0),
            (''verificationGasLimit'', BigInt 0),
            (''preVerificationGas'', BigInt 0),
            (''maxFeePerGas'', BigInt 0),
            (''maxPriorityFeePerGas'', BigInt 0),
            (''paymasterAndData'', HexString ''0x''),
            (''signature'', HexString ''0xfffffffffffffffffffffffffffffff01b'')])]"
    by (simp add: resolve_exampleStruct cfg)
  from second [THEN conjunct1] have two: "snd (snd (?pm exampleStruct2 (snd (?pm exampleStruct ((), [])))))
      = sent1 @ [alchemy_requestPaymasterAndData ''policy-1''
                   ''0x5FF137D4b0FDCD49DcA30c7CF57E578a026d2789''
                   [(''sender'', ''0x00000000000000000000000000000000000000aa''),
                    (''nonce'', ''0xff'')]]"
    by (simp add: st r2 x2 cfg)
  have c1: "snd (snd (?pm exampleStruct2 (snd (?pm exampleStruct ((), [])))))
     = [alchemy_requestPaymasterAndData ''policy-1'' ''0x5FF137D4b0FDCD49DcA30c7CF57E578a026d2789''
          [(''sender'', ''0x00000000000000000000000000000000000000aa''),
           (''nonce'', ''0x7''),
           (''initCode'', ''0x''),
           (''callData'', ''0xb61d27f6''),
           (''callGasLimit'', ''0x0''),
           (''verificationGasLimit'', ''0x0''),
           (''preVerificationGas'', ''0x0''),
           (''maxFeePerGas'', ''0x0''),
           (''maxPriorityFeePerGas'', ''0x0''),
           (''paymasterAndData'', ''0x''),
           (''signature'', ''0xfffffffffffffffffffffffffffffff01b'')],
        alchemy_requestPaymasterAndData ''policy-1'' ''0x5FF137D4b0FDCD49DcA30c7CF57E578a026d2789''
          [(''sender'', ''0x00000000000000000000000000000000000000aa''),
           (''nonce'', ''0xff'')]]"
    by (simp only: two s1 hexlify_exampleStruct append_Cons append_Nil)
  from first [THEN conjunct2] have c2: "\<exists>m. customMiddleware (withAlchemyGasManager specUtils exampleProvider ?cfg) = Some m
         \<and> snd (snd (m exampleStruct ((), [])))
           = [alchemy_requestGasAndPaymasterAndData ''policy-1''
                ''0x5FF137D4b0FDCD49DcA30c7CF57E578a026d2789''
                [(''sender'', ''0x00000000000000000000000000000000000000aa''),
                 (''nonce'', ''0x7''),
                 (''initCode'', ''0x''),
                 (''callData'', ''0xb61d27f6''),
                 (''callGasLimit'', ''0x0''),
                 (''verificationGasLimit'', ''0x0''),
                 (''preVerificationGas'', ''0x0''),
                 (''maxFeePerGas'', ''0x0''),
                 (''maxPriorityFeePerGas'', ''0x0''),
                 (''paymasterAndData'', ''0x''),
                 (''signature'', ''0xfffffffffffffffffffffffffffffff01b'')]
                ''0xfffffffffffffffffffffffffffffff01c'']"
    by (simp add: resolve_exampleStruct hexlify_exampleStruct cfg)
  show ?thesis
    by (intro conjI h c1 c2)
qed

theorem rejection_propagates:
  assumes c: "provider config = recording c"
    and res: "resolveProperties u struct = Inr resolved"
  shows "(request_PaymasterAndData c
            (alchemy_requestPaymasterAndData (policyId config) (entryPoint config)
               (deepHexlify u resolved)) w = (Inl e, w')
          \<longrightarrow> paymasterDataMiddleware (alchemyPaymasterAndDataMiddleware u config) struct (w, sent)
              = (Inl e, (w', sent @ [alchemy_requestPaymasterAndData (policyId config)
                                       (entryPoint config) (deepHexlify u resolved)])))
       \<and> (request_GasAndPaymasterAndData c
            (alchemy_requestGasAndPaymasterAndData (policyId config) (entryPoint config)
               (deepHexlify u resolved) (getDummySignature (account prov))) w = (Inl e, w')
          \<longrightarrow> (\<exists>m. customMiddleware (withAlchemyGasManager u prov config) = Some m
                \<and> m struct (w, sent)
                  = (Inl e, (w', sent @ [alchemy_requestGasAndPaymasterAndData (policyId config)
                                           (entryPoint config) (deepHexlify u resolved)
                                           (getDummySignature (account prov))]))))"
  by (simp add: alchemyPaymasterAndDataMiddleware_def gasManager_defs c res recording_def)

theorem rejection_propagates_witness:
  "provider (exampleConfig (recording (failingClient (TransportError ''timeout''))))
     = recording (failingClient (TransportError ''timeout''))
   \<and> (\<exists>resolved. resolveProperties specUtils exampleStruct = Inr resolved
        \<and> request_PaymasterAndData (failingClient (TransportError ''timeout''))
            (alchemy_requestPaymasterAndData ''policy-1''
               ''0x5FF137D4b0FDCD49DcA30c7CF57E578a026d2789'' (deepHexlify specUtils resolved)) ()
          = (Inl (TransportError ''timeout''), ())
        \<and> request_GasAndPaymasterAndData (failingClient (TransportError ''timeout''))
            (alchemy_requestGasAndPaymasterAndData ''policy-1''
               ''0x5FF137D4b0FDCD49DcA30c7CF57E578a026d2789'' (deepHexlify specUtils resolved)
               ''0xfffffffffffffffffffffffffffffff01c'') ()
          = (Inl (TransportError ''timeout''), ())
        \<and> paymasterDataMiddleware
            (alchemyPaymasterAndDataMiddleware specUtils
               (exampleConfig (recording (failingClient (TransportError ''timeout'')))))
            exampleStruct ((), [])
          = (Inl (TransportError ''timeout''),
             ((), [alchemy_requestPaymasterAndData ''policy-1''
                     ''0x5FF137D4b0FDCD49DcA30c7CF57E578a026d2789''
                     (deepHexlify specUtils resolved)]))
        \<and> (\<exists>m. customMiddleware
                  (withAlchemyGasManager specUtils exampleProvider
                     (exampleConfig (recording (failingClient (TransportError ''timeout'')))))
                = Some m
              \<and> m exampleStruct ((), [])
                = (Inl (TransportError ''timeout''),
                   ((), [alchemy_requestGasAndPaymasterAndData ''policy-1''
                           ''0x5FF137D4b0FDCD49DcA30c7CF57E578a026d2789''
                           (deepHexlify specUtils resolved)
                           ''0xfffffffffffffffffffffffffffffff01c'']))))"
proof -
  let ?c = "failingClient (TransportError ''timeout'')"
  have h: "provider (exampleConfig (recording ?c)) = recording ?c"
    by (simp add: exampleConfig_def)
  note res = resolve_exampleStruct
  have cfg: "policyId (exampleConfig (recording ?c)) = ''policy-1''"
    "entryPoint (exampleConfig (recording ?c)) = ''0x5FF137D4b0FDCD49DcA30c7CF57E578a026d2789''"
    "getDummySignature (account exampleProvider) = ''0xfffffffffffffffffffffffffffffff01c''"
    by (simp_all add: exampleConfig_def exampleProvider_def)
  have r1: "request_PaymasterAndData ?c args () = (Inl (TransportError ''timeout''), ())" for args
    by (simp add: failingClient_def cannedClient_def)
  have r2: "request_GasAndPaymasterAndData ?c args () = (Inl (TransportError ''timeout''), ())"
    for args
    by (simp add: failingClient_def cannedClient_def)
  from rejection_propagates [OF h res, of "()" "TransportError ''timeout''" "()" "[]" exampleProvider]
  show ?thesis
    using h res r1 r2 by (simp add: cfg)
qed

subsection \<open>The dummy stage: length, totality, independence of the struct\<close>

text \<open>Claim C6. Whatever the chain id, the placeholder returned by
  \<^verbatim>\<open>dummyPaymasterDataMiddleware\<close> is a string of 236 characters: \<^verbatim>\<open>0x\<close> and 117 bytes in
  hexadecimal, the same length in every branch.\<close>

theorem dummy_placeholder_length:
  "\<exists>h. dummyPaymasterDataMiddleware (alchemyPaymasterAndDataMiddleware u config) struct w =
          (Inr [(''paymasterAndData'', Value (HexString h))], w)
       \<and> length h = 236"
  by (simp add: alchemyPaymasterAndDataMiddleware_def
      dummyPaymasterAndData_known_def dummyPaymasterAndData_default_def)

theorem dummy_placeholder_length_witness:
  "length dummyPaymasterAndData_known = 236 \<and> length dummyPaymasterAndData_default = 236"
  using dummy_placeholder_length [of specUtils "exampleConfig (exampleClient 137)" exampleStruct "()"]
    dummy_placeholder_length [of specUtils "exampleConfig (exampleClient 10)" exampleStruct "()"]
  by (simp add: alchemyPaymasterAndDataMiddleware_def example_defs)

text \<open>Claim C7. For every config, known chain id or not, and every struct,
  \<^verbatim>\<open>dummyPaymasterDataMiddleware\<close> fulfils with an object that has a paymasterAndData
  property; it never rejects.\<close>

theorem dummy_never_fails:
  "\<exists>patch. dummyPaymasterDataMiddleware (alchemyPaymasterAndDataMiddleware u config) struct w
             = (Inr patch, w)
          \<and> map_of patch ''paymasterAndData'' \<noteq> None"
  by (simp add: alchemyPaymasterAndDataMiddleware_def)

theorem dummy_never_fails_witness:
  "\<exists>patch. dummyPaymasterDataMiddleware
              (alchemyPaymasterAndDataMiddleware specUtils (exampleConfig (exampleClient 10)))
              exampleStruct () = (Inr patch, ())
          \<and> map_of patch ''paymasterAndData'' \<noteq> None"
  using dummy_never_fails [of specUtils "exampleConfig (exampleClient 10)" exampleStruct "()"]
  by blast

text \<open>Claim C9. Two runs of \<^verbatim>\<open>dummyPaymasterDataMiddleware\<close> under configs with the same chain
  id fulfil with the same object, whatever the two structs (and whatever else differs
  between the two configs and transport states).\<close>

theorem dummy_ignores_struct:
  "chain_id (chain (provider config1)) = chain_id (chain (provider config2))
   \<Longrightarrow> fst (dummyPaymasterDataMiddleware (alchemyPaymasterAndDataMiddleware u1 config1) struct1 w1)
     = fst (dummyPaymasterDataMiddleware (alchemyPaymasterAndDataMiddleware u2 config2) struct2 w2)"
  by (simp add: alchemyPaymasterAndDataMiddleware_def)

theorem dummy_ignores_struct_witness:
  "chain_id (chain (provider (exampleConfig (exampleClient 137))))
     = chain_id (chain (provider (exampleConfig (cannedClient 137 (Inl (TransportError ''down''))
                                                     (Inl (TransportError ''down''))))))
   \<and> exampleStruct \<noteq> []
   \<and> fst (dummyPaymasterDataMiddleware
            (alchemyPaymasterAndDataMiddleware specUtils (exampleConfig (exampleClient 137)))
            exampleStruct ())
     = fst (dummyPaymasterDataMiddleware
              (alchemyPaymasterAndDataMiddleware specUtils
                 (exampleConfig (cannedClient 137 (Inl (TransportError ''down''))
                                   (Inl (TransportError ''down'')))))
              [] ())"
proof -
  have h: "chain_id (chain (provider (exampleConfig (exampleClient 137))))
     = chain_id (chain (provider (exampleConfig (cannedClient 137 (Inl (TransportError ''down''))
                                                     (Inl (TransportError ''down''))))))"
    by (simp add: example_defs)
  have ne: "exampleStruct \<noteq> []" by (simp add: exampleStruct_def)
  from dummy_ignores_struct [OF h, of specUtils exampleStruct "()" specUtils "[]" "()"] h ne
  show ?thesis by blast
qed

subsection \<open>The patch of the paymaster stage\<close>

text \<open>Claim C8. Whenever the struct resolves and the \<^verbatim>\<open>alchemy_requestPaymasterAndData\<close>
  call fulfils, \<^verbatim>\<open>paymasterDataMiddleware\<close> fulfils with an object whose only property is
  paymasterAndData, holding the remote value; no gas or fee property is in it.\<close>

theorem paymasterData_patch_single_field:
  assumes res: "resolveProperties u struct = Inr resolved"
    and req: "request_PaymasterAndData (provider config)
                (alchemy_requestPaymasterAndData (policyId config) (entryPoint config)
                   (deepHexlify u resolved)) w
              = (Inr result, w')"
  shows "\<exists>patch. paymasterDataMiddleware (alchemyPaymasterAndDataMiddleware u config) struct w
                   = (Inr patch, w')
           \<and> patch = [(''paymasterAndData'', Value (HexString (paymasterAndData result)))]
           \<and> dom (map_of patch) = {''paymasterAndData''}
           \<and> (\<forall>k. k \<noteq> ''paymasterAndData'' \<longrightarrow> map_of patch k = None)"
  by (simp add: alchemyPaymasterAndDataMiddleware_def res req)

theorem paymasterData_patch_single_field_witness:
  "(\<exists>resolved. resolveProperties specUtils exampleStruct = Inr resolved)
   \<and> paymasterDataMiddleware
       (alchemyPaymasterAndDataMiddleware specUtils (exampleConfig (exampleClient 1)))
       exampleStruct ()
     = (Inr [(''paymasterAndData'', Value (HexString ''0xabc''))], ())
   \<and> map_of [(''paymasterAndData'', Value (HexString ''0xabc''))] ''callGasLimit'' = None
   \<and> map_of [(''paymasterAndData'', Value (HexString ''0xabc''))] ''maxFeePerGas'' = None"
proof -
  note res = resolve_exampleStruct
  have req: "request_PaymasterAndData (provider (exampleConfig (exampleClient 1)))
               (alchemy_requestPaymasterAndData (policyId (exampleConfig (exampleClient 1)))
                  (entryPoint (exampleConfig (exampleClient 1))) (deepHexlify specUtils r)) ()
             = (Inr \<lparr> paymasterAndData = ''0xabc'' \<rparr>, ())" for r
    by (simp add: example_defs)
  have "\<exists>patch. paymasterDataMiddleware
             (alchemyPaymasterAndDataMiddleware specUtils (exampleConfig (exampleClient 1)))
             exampleStruct () = (Inr patch, ())
           \<and> patch = [(''paymasterAndData'',
                        Value (HexString (paymasterAndData \<lparr> paymasterAndData = ''0xabc'' \<rparr>)))]
           \<and> dom (map_of patch) = {''paymasterAndData''}
           \<and> (\<forall>k. k \<noteq> ''paymasterAndData'' \<longrightarrow> map_of patch k = None)"
    by (rule paymasterData_patch_single_field [OF res req])
  then have run: "paymasterDataMiddleware
       (alchemyPaymasterAndDataMiddleware specUtils (exampleConfig (exampleClient 1)))
       exampleStruct () = (Inr [(''paymasterAndData'', Value (HexString ''0xabc''))], ())"
    by simp
  from res have r: "\<exists>resolved. resolveProperties specUtils exampleStruct = Inr resolved" ..
  have n: "map_of [(''paymasterAndData'', Value (HexString ''0xabc''))] ''callGasLimit'' = None"
    "map_of [(''paymasterAndData'', Value (HexString ''0xabc''))] ''maxFeePerGas'' = None"
    by simp_all
  show ?thesis
    by (intro conjI r run n)
qed

subsection \<open>The caller's objects\<close>

text \<open>Over the store, each middleware computes what it computes on values: it rejects where
  the function on values rejects, and otherwise allocates the object that function
  returns.\<close>

lemma dummy_store_refines:
  assumes "deref (configs s) config = Some cfg" and "deref (structs s) struct = Some str"
  shows "dummyPaymasterDataMiddleware_store config struct s w =
     Some (case dummyPaymasterDataMiddleware (alchemyPaymasterAndDataMiddleware u cfg) str w of
             (Inl e, w') \<Rightarrow> (Inl e, s, w')
           | (Inr out, w') \<Rightarrow> new_object out s w')"
  using assms
  by (simp add: dummyPaymasterDataMiddleware_store_def alchemyPaymasterAndDataMiddleware_def)

lemma paymasterData_store_refines:
  assumes "deref (configs s) config = Some cfg" and "deref (structs s) struct = Some str"
  shows "paymasterDataMiddleware_store u config struct s w =
     Some (case paymasterDataMiddleware (alchemyPaymasterAndDataMiddleware u cfg) str w of
             (Inl e, w') \<Rightarrow> (Inl e, s, w')
           | (Inr out, w') \<Rightarrow> new_object out s w')"
  using assms
  by (simp add: paymasterDataMiddleware_store_def alchemyPaymasterAndDataMiddleware_def
      split: sum.splits prod.splits)

lemma custom_store_refines:
  assumes "deref (configs s) config = Some cfg" and "deref (structs s) struct = Some str"
  shows "\<exists>m. customMiddleware (withAlchemyGasManager u prov cfg) = Some m
     \<and> customMiddleware_store u (account prov) config struct s w =
         Some (case m str w of
                 (Inl e, w') \<Rightarrow> (Inl e, s, w')
               | (Inr out, w') \<Rightarrow> new_object out s w')"
  using assms
  by (simp add: customMiddleware_store_def gasManager_defs split: sum.splits prod.splits)

lemma leaves_new_object: "leaves_caller_objects s (new_object obj s w)"
  by (simp add: leaves_caller_objects_def new_object_def)

lemma leaves_rejected: "leaves_caller_objects s (Inl e, s, w)"
  by (simp add: leaves_caller_objects_def)

lemma deref_valid: "a < length cells \<Longrightarrow> deref cells a = Some (cells ! a)"
  by (simp add: deref_def)

text \<open>What the predicate says of a single reference: the config read through it is the same
  before and after, and so is every struct that existed.\<close>

lemma leaves_caller_objects_deref:
  assumes "leaves_caller_objects s (r, s', w')"
  shows "deref (configs s') config = deref (configs s) config"
    and "struct < length (structs s) \<Longrightarrow> deref (structs s') struct = deref (structs s) struct"
proof -
  from assms have c: "configs s' = configs s"
    and t: "take (length (structs s)) (structs s') = structs s"
    by (simp_all add: leaves_caller_objects_def)
  show "deref (configs s') config = deref (configs s) config" by (simp add: c)
  assume v: "struct < length (structs s)"
  have "length (take (length (structs s)) (structs s')) = length (structs s)"
    by (simp only: t)
  then have len: "length (structs s) \<le> length (structs s')"
    by simp
  from t v have "structs s' ! struct = structs s ! struct"
    by (metis nth_take)
  with v len show "deref (structs s') struct = deref (structs s) struct"
    by (simp add: deref_def)
qed

text \<open>Claim C10. Called with references into the store, none of the three middlewares
  changes the struct it is given or the config it was created with, nor any other object
  of the store: what it returns is a cell that did not exist before the call, and when
  it rejects (so in particular when the remote call fails) the store is exactly as it
  was.\<close>

theorem middlewares_leave_caller_objects:
  assumes c: "config < length (configs s)" and t: "struct < length (structs s)"
  shows "(\<exists>out. dummyPaymasterDataMiddleware_store config struct s w = Some out
             \<and> leaves_caller_objects s out)
       \<and> (\<exists>out. paymasterDataMiddleware_store u config struct s w = Some out
             \<and> leaves_caller_objects s out)
       \<and> (\<exists>out. customMiddleware_store u acct config struct s w = Some out
             \<and> leaves_caller_objects s out)"
  by (simp add: dummyPaymasterDataMiddleware_store_def paymasterDataMiddleware_store_def
      customMiddleware_store_def deref_valid [OF c] deref_valid [OF t]
      leaves_new_object leaves_rejected split: sum.splits prod.splits)

text \<open>A failed remote call returns the store it was given; a fulfilled one returns the new
  cell 1, with the struct at cell 0 and the config as they were.\<close>

theorem middlewares_leave_caller_objects_witness:
  "(0::nat) < length (configs \<lparr> structs = [exampleStruct], configs = [exampleConfig (exampleClient 1)] \<rparr>)
   \<and> (0::nat) < length (structs \<lparr> structs = [exampleStruct], configs = [exampleConfig (exampleClient 1)] \<rparr>)
   \<and> paymasterDataMiddleware_store specUtils 0 0
       \<lparr> structs = [exampleStruct],
         configs = [exampleConfig (failingClient (TransportError ''timeout''))] \<rparr> ()
     = Some (Inl (TransportError ''timeout''),
             \<lparr> structs = [exampleStruct],
               configs = [exampleConfig (failingClient (TransportError ''timeout''))] \<rparr>, ())
   \<and> (\<exists>s'. customMiddleware_store specUtils (account exampleProvider) 0 0
               \<lparr> structs = [exampleStruct], configs = [exampleConfig (exampleClient 1)] \<rparr> ()
             = Some (Inr 1, s', ())
           \<and> deref (structs s') 0 = Some exampleStruct
           \<and> configs s' = [exampleConfig (exampleClient 1)])
   \<and> (\<exists>out. dummyPaymasterDataMiddleware_store 0 0
                \<lparr> structs = [exampleStruct], configs = [exampleConfig (exampleClient 1)] \<rparr> ()
              = Some out
            \<and> leaves_caller_objects
                \<lparr> structs = [exampleStruct], configs = [exampleConfig (exampleClient 1)] \<rparr> out)
   \<and> (\<exists>out. paymasterDataMiddleware_store specUtils 0 0
                \<lparr> structs = [exampleStruct], configs = [exampleConfig (exampleClient 1)] \<rparr> ()
              = Some out
            \<and> leaves_caller_objects
                \<lparr> structs = [exampleStruct], configs = [exampleConfig (exampleClient 1)] \<rparr> out)
   \<and> (\<exists>out. customMiddleware_store specUtils (account exampleProvider) 0 0
                \<lparr> structs = [exampleStruct], configs = [exampleConfig (exampleClient 1)] \<rparr> ()
              = Some out
            \<and> leaves_caller_objects
                \<lparr> structs = [exampleStruct], configs = [exampleConfig (exampleClient 1)] \<rparr> out)"
proof -
  let ?s = "\<lparr> structs = [exampleStruct], configs = [exampleConfig (exampleClient 1)] \<rparr>"
  let ?f = "\<lparr> structs = [exampleStruct],
              configs = [exampleConfig (failingClient (TransportError ''timeout''))] \<rparr>"
  have v: "(0::nat) < length (configs ?s)" "(0::nat) < length (structs ?s)" by simp_all
  have a: "paymasterDataMiddleware_store specUtils 0 0 ?f ()
           = Some (Inl (TransportError ''timeout''), ?f, ())"
    by (simp add: paymasterDataMiddleware_store_def deref_def resolve_exampleStruct
        exampleConfig_def failingClient_def cannedClient_def)
  have b: "\<exists>s'. customMiddleware_store specUtils (account exampleProvider) 0 0 ?s ()
                  = Some (Inr 1, s', ())
                \<and> deref (structs s') 0 = Some exampleStruct
                \<and> configs s' = [exampleConfig (exampleClient 1)]"
    by (simp add: customMiddleware_store_def deref_def resolve_exampleStruct example_defs
        new_object_def)
  note inst = middlewares_leave_caller_objects [OF v, of "()" specUtils "account exampleProvider"]
  show ?thesis
    by (intro conjI v a b inst [THEN conjunct1] inst [THEN conjunct2, THEN conjunct1]
        inst [THEN conjunct2, THEN conjunct2])
qed

end
